theory Spec2Isabelle
  imports Main
begin

section \<open>Azure DevOps MCP server: the entry point \<open>src/index.ts\<close>\<close>

text \<open>
  The entry point reads the process environment and the command line, resolves the
  enabled domains, and in \<open>main\<close> builds the authenticator and hands a client factory to
  the tool registrar. The functions of \<open>index.ts\<close> are embedded below under their own
  names. What \<open>index.ts\<close> imports from other modules of the repository is a parameter
  of the embedding (\<open>collaborators\<close>); where a property is about such a module itself,
  the module is modelled from the specification, marked so, and put in the parameter's
  place.
\<close>

subsection \<open>Values\<close>

text \<open>\<open>process.env\<close>: a variable is unset or holds a string.\<close>

type_synonym env = "string \<rightharpoonup> string"

text \<open>
  Failures. \<open>InvalidChoice\<close> and \<open>MissingArgument\<close> are the two ways the yargs
  declaration of \<open>index.ts\<close> rejects a command line (\<open>choices\<close>, \<open>demandOption\<close>);
  \<open>UnknownDomain\<close> (the offending name, the valid names), \<open>MissingCredential\<close> and
  \<open>AuthFailed\<close> are the error kinds of the specification; \<open>OtherError\<close> is any other
  rejection of a collaborator.
\<close>

datatype error =
    InvalidChoice string string
  | MissingArgument string
  | UnknownDomain string "string list"
  | MissingCredential
  | AuthFailed
  | OtherError string

text \<open>
  An asynchronous operation (\<open>() => Promise<T>\<close>) run to completion: from the state
  at the call it gives the state at resumption and either the rejection or the value.
  Whatever else runs while the caller is suspended at its \<open>await\<close> is part of the state
  change.
\<close>

type_synonym ('s, 'e, 'a) async = "'s \<Rightarrow> ('e + 'a) \<times> 's"

text \<open>
  The command line as the operator wrote it. The positional \<open>organization\<close> is there or
  not. \<open>opt_domains\<close> is \<open>None\<close> when \<open>-d\<close> does not occur, and otherwise the values that
  follow its occurrences, none for a bare \<open>-d\<close>. Every other option may occur any number
  of times, each time with one value (the empty string when none is written): the field
  lists the values in order, and is empty when the option does not occur.
\<close>

record cli =
  arg_organization :: "string option"
  opt_domains :: "string list option"
  opt_authentication :: "string list"
  opt_tenant :: "string list"
  opt_server_url :: "string list"
  opt_pat_token :: "string list"
  opt_server_version :: "string list"

text \<open>
  What yargs yields for an option declared \<open>type: "string"\<close>: the string when the option
  occurs once, and the array of its values when it occurs more than once. TypeScript
  types such a field as a string either way.
\<close>

datatype optionValue = Str string | Arr "string list"

fun yargsString :: "string list \<Rightarrow> optionValue option" where
  "yargsString [] = None"
| "yargsString [v] = Some (Str v)"
| "yargsString vs = Some (Arr vs)"

text \<open>\<open>argv\<close>, the result of \<open>parseSync\<close>.\<close>

record argv =
  organization :: string
  domains :: "string list"
  authentication :: optionValue
  tenant :: "optionValue option"
  serverUrl :: "optionValue option"
  patToken :: "optionValue option"
  serverVersion :: "optionValue option"

text \<open>
  The credential handlers of \<open>azure-devops-node-api\<close>: what
  \<open>getPersonalAccessTokenHandler\<close> and \<open>getBearerHandler\<close> return, each holding the
  token it was given.
\<close>

datatype IRequestHandler =
    PersonalAccessTokenCredentialHandler string
  | BearerCredentialHandler string

definition getPersonalAccessTokenHandler :: "string \<Rightarrow> IRequestHandler" where
  "getPersonalAccessTokenHandler token = PersonalAccessTokenCredentialHandler token"

definition getBearerHandler :: "string \<Rightarrow> IRequestHandler" where
  "getBearerHandler token = BearerCredentialHandler token"

fun handlerToken :: "IRequestHandler \<Rightarrow> string" where
  "handlerToken (PersonalAccessTokenCredentialHandler token) = token"
| "handlerToken (BearerCredentialHandler token) = token"

text \<open>
  The object literal passed as the fourth argument of \<open>new WebApi\<close>, and the client:
  the four arguments of the constructor. The third one is \<open>undefined\<close> in \<open>index.ts\<close>.
  The constructor of \<open>azure-devops-node-api\<close> may throw on its arguments
  (\<open>webApiThrows\<close>, a parameter: the error, if any); otherwise it yields the client that
  holds them.
\<close>

record IWebApiRequestSettings =
  productName :: string
  productVersion :: string
  userAgent :: string

typedecl IRequestOptions

record WebApi =
  defaultUrl :: optionValue
  authHandler :: IRequestHandler
  options :: "IRequestOptions option"
  requestSettings :: IWebApiRequestSettings

definition newWebApi ::
  "(optionValue \<Rightarrow> IRequestHandler \<Rightarrow> IRequestOptions option \<Rightarrow> IWebApiRequestSettings \<Rightarrow>
    'e option) \<Rightarrow>
   optionValue \<Rightarrow> IRequestHandler \<Rightarrow> IRequestOptions option \<Rightarrow> IWebApiRequestSettings \<Rightarrow>
   'e + WebApi" where
  "newWebApi webApiThrows url handler opts settings =
     (case webApiThrows url handler opts settings of
        Some err \<Rightarrow> Inl err
      | None \<Rightarrow>
          Inr \<lparr> defaultUrl = url, authHandler = handler, options = opts,
                requestSettings = settings \<rparr>)"

text \<open>
  The user-agent composer of \<open>useragent.js\<close>, as \<open>index.ts\<close> sees it: an object whose
  \<open>userAgent\<close> property is read. The field holds what the property currently yields.
\<close>

record UserAgentComposer =
  composedUserAgent :: string

subsection \<open>Environment detection and the command line\<close>

text \<open>JavaScript's \<open>!!v\<close> on a value that is a string or undefined.\<close>

definition truthy :: "string option \<Rightarrow> bool" where
  "truthy v = (case v of None \<Rightarrow> False | Some s \<Rightarrow> s \<noteq> [])"

definition isGitHubCodespaceEnv :: "env \<Rightarrow> bool" where
  "isGitHubCodespaceEnv env =
     (env ''CODESPACES'' = Some ''true'' \<and> truthy (env ''CODESPACE_NAME''))"

definition defaultAuthenticationType :: "env \<Rightarrow> string" where
  "defaultAuthenticationType env =
     (if isGitHubCodespaceEnv env then ''azcli'' else ''interactive'')"

text \<open>The \<open>choices\<close> of the \<open>authentication\<close> option.\<close>

definition authenticationChoices :: "string list" where
  "authenticationChoices = [''interactive'', ''azcli'', ''env'', ''envvar'', ''pat'']"

text \<open>
  \<open>parseSync\<close> under the option declarations of \<open>index.ts\<close>: the positional
  \<open>organization\<close> is demanded; \<open>domains\<close> is an array option whose default, the
  single value \<open>"all"\<close>, also stands in when \<open>-d\<close> is given no value; every value given
  for \<open>authentication\<close> must be one of the choices, and the option defaults to
  \<open>defaultAuthenticationType\<close>; the other options have no default. An option that
  occurs more than once arrives as an array. A rejected command line ends the process.
\<close>

definition parseSync :: "env \<Rightarrow> cli \<Rightarrow> error + argv" where
  "parseSync env c =
     (case arg_organization c of
        None \<Rightarrow> Inl (MissingArgument ''organization'')
      | Some org \<Rightarrow>
          (case filter (\<lambda>v. v \<notin> set authenticationChoices) (opt_authentication c) of
             bad # _ \<Rightarrow> Inl (InvalidChoice ''authentication'' bad)
           | [] \<Rightarrow>
               Inr \<lparr> organization = org,
                     domains =
                       (case opt_domains c of
                          None \<Rightarrow> [''all'']
                        | Some ds \<Rightarrow> if ds = [] then [''all''] else ds),
                     authentication =
                       (case yargsString (opt_authentication c) of
                          None \<Rightarrow> Str (defaultAuthenticationType env)
                        | Some given \<Rightarrow> given),
                     tenant = yargsString (opt_tenant c),
                     serverUrl = yargsString (opt_server_url c),
                     patToken = yargsString (opt_pat_token c),
                     serverVersion = yargsString (opt_server_version c) \<rparr>))"

definition orgName :: "argv \<Rightarrow> string" where
  "orgName a = organization a"

text \<open>\<open>argv.serverUrl ?? "https://dev.azure.com/" + orgName\<close>\<close>

definition orgUrl :: "argv \<Rightarrow> optionValue" where
  "orgUrl a =
     (case serverUrl a of
        Some url \<Rightarrow> url
      | None \<Rightarrow> Str (''https://dev.azure.com/'' @ orgName a))"

subsection \<open>The client factory\<close>

text \<open>
  \<open>getAzureDevOpsClient\<close> closes over the module's \<open>argv\<close> and \<open>packageVersion\<close>
  (the latter a constant of \<open>version.js\<close>, taken as a parameter) and over its two
  arguments: the token provider and the composer. The composer is shared by reference
  with the handshake callback, so it is given as a location read in the current state.
  The returned function awaits the token, and only then builds the handler, reads
  \<open>userAgentComposer.userAgent\<close> and constructs the client; a rejected token request
  rejects the call, and so does a throw of the constructor.
\<close>

definition getAzureDevOpsClient ::
  "argv \<Rightarrow> string \<Rightarrow>
   (optionValue \<Rightarrow> IRequestHandler \<Rightarrow> IRequestOptions option \<Rightarrow> IWebApiRequestSettings \<Rightarrow>
    'e option) \<Rightarrow>
   ('s, 'e, string) async \<Rightarrow> ('s \<Rightarrow> UserAgentComposer) \<Rightarrow> ('s, 'e, WebApi) async" where
  "getAzureDevOpsClient a packageVersion webApiThrows getAzureDevOpsToken userAgentComposer s =
     (case getAzureDevOpsToken s of
        (Inl err, s') \<Rightarrow> (Inl err, s')
      | (Inr accessToken, s') \<Rightarrow>
          (let handler =
                 (if authentication a = Str ''pat'' then getPersonalAccessTokenHandler accessToken
                  else getBearerHandler accessToken)
           in case newWebApi webApiThrows (orgUrl a) handler None
                     \<lparr> productName = ''AzureDevOps.MCP'',
                       productVersion = packageVersion,
                       userAgent = composedUserAgent (userAgentComposer s') \<rparr> of
                Inl err \<Rightarrow> (Inl err, s')
              | Inr connection \<Rightarrow> (Inr connection, s')))"

subsection \<open>Startup\<close>

text \<open>
  The state \<open>main\<close> works in: the composer object it allocates, and the rest of the
  world that the collaborators read and change.
\<close>

record 'w runtime =
  composer :: UserAgentComposer
  world :: 'w

text \<open>
  What \<open>index.ts\<close> imports from modules that are not among the sources, as parameters:
  \<open>packageVersion\<close>; \<open>new DomainsManager(requested).getEnabledDomains()\<close>, which yields
  the enabled set or throws; the composer's constructor; the tenant lookup
  \<open>getOrgTenant\<close>, asynchronous, which yields a tenant or undefined or rejects;
  \<open>createAuthenticator\<close>, which yields a token provider or throws; and the throws of the
  client's constructor.
\<close>

record 'w collaborators =
  packageVersion :: string
  getEnabledDomains :: "string list \<Rightarrow> error + string set"
  newUserAgentComposer :: "string \<Rightarrow> UserAgentComposer"
  getOrgTenant :: "string \<Rightarrow> ('w runtime, error, string option) async"
  createAuthenticator ::
    "optionValue \<Rightarrow> optionValue option \<Rightarrow> optionValue option \<Rightarrow>
     error + ('w runtime, error, string) async"
  webApiThrows ::
    "optionValue \<Rightarrow> IRequestHandler \<Rightarrow> IRequestOptions option \<Rightarrow> IWebApiRequestSettings \<Rightarrow>
     error option"

text \<open>
  The calls \<open>main\<close> and its \<open>catch\<close> handler make, in the order they are made. The
  logger, the constructors of the server, the composer and the transport, the registrar
  and \<open>connect\<close> are recorded as calls that return.
\<close>

datatype call =
    LoggerInfo
  | NewMcpServer
  | NewUserAgentComposer string
  | GetOrgTenant string
  | CreateAuthenticator optionValue "optionValue option" "optionValue option"
  | ConfigureAllTools "string set"
  | NewStdioServerTransport
  | Connect
  | LoggerError error
  | ProcessExit nat

fun isGetOrgTenant :: "call \<Rightarrow> bool" where
  "isGetOrgTenant (GetOrgTenant _) = True"
| "isGetOrgTenant _ = False"

fun isCreateAuthenticator :: "call \<Rightarrow> bool" where
  "isCreateAuthenticator (CreateAuthenticator _ _ _) = True"
| "isCreateAuthenticator _ = False"

fun isConfigureAllTools :: "call \<Rightarrow> bool" where
  "isConfigureAllTools (ConfigureAllTools _) = True"
| "isConfigureAllTools _ = False"

text \<open>What the tool registrar was handed once the server is connected.\<close>

record 'w serving =
  registeredDomains :: "string set"
  authenticator :: "('w runtime, error, string) async"
  clientFactory :: "('w runtime, error, WebApi) async"
  state :: "'w runtime"

text \<open>
  \<open>main\<close>: log, create the server and the composer, resolve the tenant
  (\<open>(await getOrgTenant(orgName)) ?? argv.tenant\<close>), create the authenticator, register
  the tools, connect. A rejection of the lookup or a throw of \<open>createAuthenticator\<close>
  ends \<open>main\<close> there.
\<close>

definition main ::
  "'w collaborators \<Rightarrow> argv \<Rightarrow> string set \<Rightarrow> 'w \<Rightarrow> (error + 'w serving) \<times> call list" where
  "main cs a enabledDomains w =
     (let version = packageVersion cs;
          s0 = \<lparr> composer = newUserAgentComposer cs version, world = w \<rparr>;
          looking = [LoggerInfo, NewMcpServer, NewUserAgentComposer version,
                     GetOrgTenant (orgName a)]
      in case getOrgTenant cs (orgName a) s0 of
           (Inl err, s1) \<Rightarrow> (Inl err, looking)
         | (Inr found, s1) \<Rightarrow>
             (let tenantId = (case found of Some t \<Rightarrow> Some (Str t) | None \<Rightarrow> tenant a);
                  creating =
                    looking @ [CreateAuthenticator (authentication a) tenantId (patToken a)]
              in case createAuthenticator cs (authentication a) tenantId (patToken a) of
                   Inl err \<Rightarrow> (Inl err, creating)
                 | Inr provider \<Rightarrow>
                     (Inr \<lparr> registeredDomains = enabledDomains,
                            authenticator = provider,
                            clientFactory =
                              getAzureDevOpsClient a version (webApiThrows cs) provider composer,
                            state = s1 \<rparr>,
                      creating @
                        [ConfigureAllTools enabledDomains, NewStdioServerTransport, Connect])))"

text \<open>
  The module from top to bottom: parse the command line, resolve the domains (a throw
  here is at module level, before \<open>main\<close> is called), then \<open>main().catch\<close>, whose
  handler logs the error and exits with status 1. The handshake callback that \<open>main\<close>
  registers runs after the server is connected; it is one of the changes of the state
  that may stand between two calls of the client factory.
\<close>

definition startup ::
  "'w collaborators \<Rightarrow> env \<Rightarrow> cli \<Rightarrow> 'w \<Rightarrow> (error + 'w serving) \<times> call list" where
  "startup cs env c w =
     (case parseSync env c of
        Inl err \<Rightarrow> (Inl err, [])
      | Inr a \<Rightarrow>
          (case getEnabledDomains cs (domains a) of
             Inl err \<Rightarrow> (Inl err, [])
           | Inr enabledDomains \<Rightarrow>
               (case main cs a enabledDomains w of
                  (Inl err, calls) \<Rightarrow> (Inl err, calls @ [LoggerError err, ProcessExit 1])
                | (Inr sv, calls) \<Rightarrow> (Inr sv, calls))))"

subsection \<open>Collaborators modelled from the specification\<close>

text \<open>
  Modelled from the spec: the domain filter (\<open>DomainsManager\<close> of \<open>shared/domains.js\<close>,
  constructed from \<open>argv.domains\<close> and read with \<open>getEnabledDomains\<close>), which is not
  among the sources. Section 4.1, \<open>resolve\<close>: a request holding only the literal token
  \<open>"all"\<close> enables every domain of the fixed registry; otherwise each requested string
  is a domain name, an unrecognized one fails with \<open>UnknownDomain\<close> naming it and listing
  the valid names, and duplicates collapse. The registry itself is a parameter.
\<close>

definition resolve :: "string list \<Rightarrow> string list \<Rightarrow> error + string set" where
  "resolve registry requested =
     (if requested \<noteq> [] \<and> list_all (\<lambda>d. d = ''all'') requested then Inr (set registry)
      else
        (case filter (\<lambda>d. d \<notin> set registry) requested of
           [] \<Rightarrow> Inr (set requested)
         | bad # _ \<Rightarrow> Inl (UnknownDomain bad registry)))"

text \<open>
  Modelled from the spec: the authenticator factory (\<open>createAuthenticator\<close> of
  \<open>auth.js\<close>), which is not among the sources. Section 4.2, \<open>create\<close>: strategy \<open>pat\<close>
  requires a non-empty static credential and fails with \<open>MissingCredential\<close> at
  construction otherwise; its provider always resolves to that credential. Every other
  strategy returns a provider that is opaque here: \<open>others\<close>, by strategy and tenant.
  The section speaks of single strings; a credential that arrives as an array is
  supplied and not empty, and its provider is left opaque as well.
\<close>

definition create ::
  "(optionValue \<Rightarrow> optionValue option \<Rightarrow> ('s, error, string) async) \<Rightarrow>
   optionValue \<Rightarrow> optionValue option \<Rightarrow> optionValue option \<Rightarrow>
   error + ('s, error, string) async" where
  "create others strategy tenantId staticCredential =
     (if strategy = Str ''pat'' then
        (case staticCredential of
           None \<Rightarrow> Inl MissingCredential
         | Some (Str credential) \<Rightarrow>
             if credential = [] then Inl MissingCredential
             else Inr (\<lambda>s. (Inr credential, s))
         | Some (Arr credentials) \<Rightarrow> Inr (others strategy tenantId))
      else Inr (others strategy tenantId))"

subsection \<open>Example inputs\<close>

text \<open>
  A run used to exercise the theorems: a Codespace environment, an operator who names
  the organization \<open>contoso\<close> and a tenant, a world that counts the asynchronous
  requests made so far, a token provider that issues a new token on every request, one
  that always fails, a tenant lookup that knows the organization, the modules modelled
  from the specification, over a registry of three domains and providers whose token
  names the strategy and the tenant they were created for, a client constructor that
  never throws and one that throws on a URL that is an array; and the same collaborators
  with a tenant lookup that rejects.
\<close>

definition exampleEnv :: env where
  "exampleEnv = [''CODESPACES'' \<mapsto> ''true'', ''CODESPACE_NAME'' \<mapsto> ''box'']"

definition exampleCli :: cli where
  "exampleCli =
     \<lparr> arg_organization = Some ''contoso'',
       opt_domains = None,
       opt_authentication = [''interactive''],
       opt_tenant = [''operator-tenant''],
       opt_server_url = [],
       opt_pat_token = [],
       opt_server_version = [] \<rparr>"

definition exampleArgv :: argv where
  "exampleArgv =
     \<lparr> organization = ''contoso'',
       domains = [''all''],
       authentication = Str ''interactive'',
       tenant = Some (Str ''operator-tenant''),
       serverUrl = None,
       patToken = None,
       serverVersion = None \<rparr>"

definition countingToken :: "(nat runtime, error, string) async" where
  "countingToken s = (Inr (''token-'' @ replicate (world s) CHR ''I''), s\<lparr>world := Suc (world s)\<rparr>)"

definition failingToken :: "(nat runtime, error, string) async" where
  "failingToken s = (Inl AuthFailed, s\<lparr>world := Suc (world s)\<rparr>)"

definition handshake :: "nat runtime \<Rightarrow> nat runtime" where
  "handshake s =
     s\<lparr>composer := \<lparr> composedUserAgent = composedUserAgent (composer s) @ '' agent-x/0.1'' \<rparr>\<rparr>"

definition exampleState :: "nat runtime" where
  "exampleState = \<lparr> composer = \<lparr> composedUserAgent = ''AzureDevOps.MCP/1.2.3'' \<rparr>, world = 0 \<rparr>"

definition exampleRegistry :: "string list" where
  "exampleRegistry = [''repositories'', ''builds'', ''work'']"

fun shown :: "optionValue \<Rightarrow> string" where
  "shown (Str v) = v"
| "shown (Arr vs) = concat vs"

definition exampleProviders ::
  "optionValue \<Rightarrow> optionValue option \<Rightarrow> (nat runtime, error, string) async" where
  "exampleProviders strategy tenantId s =
     (Inr (shown strategy @ '' token for '' @
             (case tenantId of None \<Rightarrow> ''default'' | Some t \<Rightarrow> shown t)),
      s\<lparr>world := Suc (world s)\<rparr>)"

definition neverThrows ::
  "optionValue \<Rightarrow> IRequestHandler \<Rightarrow> IRequestOptions option \<Rightarrow> IWebApiRequestSettings \<Rightarrow>
   error option" where
  "neverThrows url handler opts settings = None"

definition throwsOnArray ::
  "optionValue \<Rightarrow> IRequestHandler \<Rightarrow> IRequestOptions option \<Rightarrow> IWebApiRequestSettings \<Rightarrow>
   error option" where
  "throwsOnArray url handler opts settings =
     (case url of Str v \<Rightarrow> None | Arr vs \<Rightarrow> Some (OtherError ''Invalid URL''))"

definition exampleCollaborators :: "nat collaborators" where
  "exampleCollaborators =
     \<lparr> packageVersion = ''1.2.3'',
       getEnabledDomains = resolve exampleRegistry,
       newUserAgentComposer = (\<lambda>v. \<lparr> composedUserAgent = ''AzureDevOps.MCP/'' @ v \<rparr>),
       getOrgTenant = (\<lambda>org s.
         (Inr (if org = ''contoso'' then Some ''lookup-tenant'' else None),
          s\<lparr>world := Suc (world s)\<rparr>)),
       createAuthenticator = create exampleProviders,
       webApiThrows = throwsOnArray \<rparr>"

definition offlineCollaborators :: "nat collaborators" where
  "offlineCollaborators =
     exampleCollaborators
       \<lparr>getOrgTenant := (\<lambda>org s. (Inl (OtherError ''offline''), s\<lparr>world := Suc (world s)\<rparr>))\<rparr>"

section \<open>Properties\<close>

subsection \<open>The domain filter rejects unknown names\<close>

lemma resolve_unknown:
  assumes "d \<in> set requested" and "d \<notin> set registry" and "d \<noteq> ''all''"
  shows "\<exists>bad. bad \<in> set requested \<and> bad \<notin> set registry \<and>
           resolve registry requested = Inl (UnknownDomain bad registry)"
proof -
  from assms have not_wildcard: "\<not> list_all (\<lambda>d. d = ''all'') requested"
    by (auto simp: list_all_iff)
  from assms have "d \<in> set (filter (\<lambda>d. d \<notin> set registry) requested)"
    by simp
  then obtain bad rest where unknown: "filter (\<lambda>d. d \<notin> set registry) requested = bad # rest"
    by (cases "filter (\<lambda>d. d \<notin> set registry) requested") auto
  then have "bad \<in> set (filter (\<lambda>d. d \<notin> set registry) requested)"
    by simp
  then have "bad \<in> set requested" and "bad \<notin> set registry"
    by simp_all
  moreover from not_wildcard unknown
  have "resolve registry requested = Inl (UnknownDomain bad registry)"
    by (simp add: resolve_def)
  ultimately show ?thesis by blast
qed

subsection \<open>The authentication option\<close>

text \<open>
  The default strategy is \<open>azcli\<close> exactly when \<open>CODESPACES\<close> is \<open>"true"\<close> and
  \<open>CODESPACE_NAME\<close> is set and not empty, and \<open>interactive\<close> otherwise. It is what
  \<open>argv.authentication\<close> holds when the option is absent. An option given once is
  accepted exactly when its value is one of the five names; given more than once with
  names among the five, it is accepted as an array, which is none of the five names.
\<close>

lemma defaultAuthenticationType_codespace:
  "defaultAuthenticationType env =
     (if env ''CODESPACES'' = Some ''true'' \<and>
         (\<exists>name. env ''CODESPACE_NAME'' = Some name \<and> name \<noteq> [])
      then ''azcli'' else ''interactive'')"
proof -
  have "isGitHubCodespaceEnv env \<longleftrightarrow>
      env ''CODESPACES'' = Some ''true'' \<and>
      (\<exists>name. env ''CODESPACE_NAME'' = Some name \<and> name \<noteq> [])"
    by (auto simp: isGitHubCodespaceEnv_def truthy_def split: option.splits)
  then show ?thesis
    unfolding defaultAuthenticationType_def by simp
qed

lemma parseSync_authentication_absent:
  assumes "arg_organization c = Some org" and "opt_authentication c = []"
  shows "\<exists>a. parseSync env c = Inr a \<and> authentication a = Str (defaultAuthenticationType env)"
  using assms by (simp add: parseSync_def)

lemma parseSync_authentication_once:
  assumes "arg_organization c = Some org" and "opt_authentication c = [given]"
  shows "if given \<in> {''interactive'', ''azcli'', ''env'', ''envvar'', ''pat''}
         then \<exists>a. parseSync env c = Inr a \<and> authentication a = Str given
         else parseSync env c = Inl (InvalidChoice ''authentication'' given)"
  using assms by (simp add: parseSync_def authenticationChoices_def)

lemma parseSync_authentication_repeated:
  assumes "arg_organization c = Some org" and "opt_authentication c = first # second # rest"
    and "set (opt_authentication c) \<subseteq> set authenticationChoices"
  shows "\<exists>a. parseSync env c = Inr a \<and> authentication a = Arr (first # second # rest) \<and>
           authentication a \<notin> Str ` set authenticationChoices"
proof -
  from assms(3) have "filter (\<lambda>v. v \<notin> set authenticationChoices) (opt_authentication c) = []"
    by (auto simp: filter_empty_conv)
  with assms(1,2) show ?thesis
    by (auto simp: parseSync_def)
qed

subsection \<open>The claims\<close>

text \<open>
  C1. Whenever the token provider yields a token: every client the factory returns holds
  that token in the personal-access-token handler when \<open>argv.authentication\<close> is
  \<open>pat\<close>, and in the bearer handler for every other value, in particular for
  \<open>interactive\<close>, \<open>azcli\<close>, \<open>env\<close> and \<open>envvar\<close>; the factory returns such a client when
  the constructor accepts its arguments, and when the constructor throws it rejects with
  that error and attaches nothing.
\<close>

theorem C1_credential_scheme:
  assumes "tok s = (Inr accessToken, s')"
  shows "(\<forall>client s''.
            getAzureDevOpsClient a version throws tok uac s = (Inr client, s'') \<longrightarrow>
            (authentication a = Str ''pat'' \<longrightarrow>
               authHandler client = PersonalAccessTokenCredentialHandler accessToken) \<and>
            (authentication a \<noteq> Str ''pat'' \<longrightarrow>
               authHandler client = BearerCredentialHandler accessToken) \<and>
            (authentication a \<in> {Str ''interactive'', Str ''azcli'', Str ''env'', Str ''envvar''} \<longrightarrow>
               authHandler client = BearerCredentialHandler accessToken)) \<and>
         (throws (orgUrl a)
            (if authentication a = Str ''pat''
             then PersonalAccessTokenCredentialHandler accessToken
             else BearerCredentialHandler accessToken)
            None
            \<lparr> productName = ''AzureDevOps.MCP'', productVersion = version,
              userAgent = composedUserAgent (uac s') \<rparr> = None \<longrightarrow>
          (\<exists>client. getAzureDevOpsClient a version throws tok uac s = (Inr client, s'))) \<and>
         (\<forall>err.
            throws (orgUrl a)
              (if authentication a = Str ''pat''
               then PersonalAccessTokenCredentialHandler accessToken
               else BearerCredentialHandler accessToken)
              None
              \<lparr> productName = ''AzureDevOps.MCP'', productVersion = version,
                userAgent = composedUserAgent (uac s') \<rparr> = Some err \<longrightarrow>
            getAzureDevOpsClient a version throws tok uac s = (Inl err, s'))"
proof (intro conjI allI impI)
  fix client s''
  assume built: "getAzureDevOpsClient a version throws tok uac s = (Inr client, s'')"
  with assms have handler: "authHandler client =
      (if authentication a = Str ''pat'' then PersonalAccessTokenCredentialHandler accessToken
       else BearerCredentialHandler accessToken)"
    by (auto simp: getAzureDevOpsClient_def newWebApi_def Let_def getPersonalAccessTokenHandler_def
        getBearerHandler_def split: option.splits)
  { assume "authentication a = Str ''pat''"
    with handler show "authHandler client = PersonalAccessTokenCredentialHandler accessToken"
      by simp }
  { assume "authentication a \<noteq> Str ''pat''"
    with handler show "authHandler client = BearerCredentialHandler accessToken"
      by simp }
  { assume "authentication a \<in> {Str ''interactive'', Str ''azcli'', Str ''env'', Str ''envvar''}"
    then have "authentication a \<noteq> Str ''pat''"
      by auto
    with handler show "authHandler client = BearerCredentialHandler accessToken"
      by simp }
next
  assume "throws (orgUrl a)
            (if authentication a = Str ''pat''
             then PersonalAccessTokenCredentialHandler accessToken
             else BearerCredentialHandler accessToken)
            None
            \<lparr> productName = ''AzureDevOps.MCP'', productVersion = version,
              userAgent = composedUserAgent (uac s') \<rparr> = None"
  with assms show "\<exists>client. getAzureDevOpsClient a version throws tok uac s = (Inr client, s')"
    by (cases "authentication a = Str ''pat''")
      (simp_all add: getAzureDevOpsClient_def newWebApi_def Let_def
        getPersonalAccessTokenHandler_def getBearerHandler_def)
next
  fix err
  assume "throws (orgUrl a)
            (if authentication a = Str ''pat''
             then PersonalAccessTokenCredentialHandler accessToken
             else BearerCredentialHandler accessToken)
            None
            \<lparr> productName = ''AzureDevOps.MCP'', productVersion = version,
              userAgent = composedUserAgent (uac s') \<rparr> = Some err"
  with assms show "getAzureDevOpsClient a version throws tok uac s = (Inl err, s')"
    by (cases "authentication a = Str ''pat''")
      (simp_all add: getAzureDevOpsClient_def newWebApi_def Let_def
        getPersonalAccessTokenHandler_def getBearerHandler_def)
qed

theorem C1_credential_scheme_witness:
  "countingToken exampleState = (Inr ''token-'', exampleState\<lparr>world := Suc 0\<rparr>) \<and>
   countingToken (exampleState\<lparr>world := Suc 0\<rparr>) =
     (Inr ''token-I'', exampleState\<lparr>world := Suc (Suc 0)\<rparr>) \<and>
   (\<exists>first second.
      getAzureDevOpsClient (exampleArgv\<lparr>authentication := Str ''pat''\<rparr>) ''1.2.3'' neverThrows
        countingToken composer exampleState = (Inr first, exampleState\<lparr>world := Suc 0\<rparr>) \<and>
      authHandler first = PersonalAccessTokenCredentialHandler ''token-'' \<and>
      getAzureDevOpsClient (exampleArgv\<lparr>authentication := Str ''pat''\<rparr>) ''1.2.3'' neverThrows
        countingToken composer (exampleState\<lparr>world := Suc 0\<rparr>) =
        (Inr second, exampleState\<lparr>world := Suc (Suc 0)\<rparr>) \<and>
      authHandler second = PersonalAccessTokenCredentialHandler ''token-I'') \<and>
   (\<exists>client.
      getAzureDevOpsClient exampleArgv ''1.2.3'' neverThrows countingToken composer exampleState =
        (Inr client, exampleState\<lparr>world := Suc 0\<rparr>) \<and>
      authHandler client = BearerCredentialHandler ''token-'') \<and>
   getAzureDevOpsClient (exampleArgv\<lparr>serverUrl := Some (Arr [''a'', ''b''])\<rparr>) ''1.2.3''
     throwsOnArray countingToken composer exampleState =
     (Inl (OtherError ''Invalid URL''), exampleState\<lparr>world := Suc 0\<rparr>)"
proof -
  define patArgv where "patArgv = exampleArgv\<lparr>authentication := Str ''pat''\<rparr>"
  define arrayArgv where "arrayArgv = exampleArgv\<lparr>serverUrl := Some (Arr [''a'', ''b''])\<rparr>"
  define after1 where "after1 = exampleState\<lparr>world := Suc 0\<rparr>"
  define after2 where "after2 = exampleState\<lparr>world := Suc (Suc 0)\<rparr>"
  have one: "countingToken exampleState = (Inr ''token-'', after1)"
    by (simp add: countingToken_def exampleState_def after1_def)
  have two: "countingToken after1 = (Inr ''token-I'', after2)"
    by (simp add: countingToken_def exampleState_def after1_def after2_def)
  have pat: "authentication patArgv = Str ''pat''"
    and other: "authentication exampleArgv \<noteq> Str ''pat''"
    by (simp_all add: exampleArgv_def patArgv_def)
  have accepted: "neverThrows url handler opts settings = None" for url handler opts settings
    by (simp add: neverThrows_def)
  have refused: "throwsOnArray (orgUrl arrayArgv) handler opts settings =
      Some (OtherError ''Invalid URL'')" for handler opts settings
    by (simp add: throwsOnArray_def orgUrl_def arrayArgv_def)
  note first_pat = C1_credential_scheme [where tok = countingToken and s = exampleState
      and a = patArgv and version = "''1.2.3''" and throws = neverThrows and uac = composer,
      OF one]
  note second_pat = C1_credential_scheme [where tok = countingToken and s = after1
      and a = patArgv and version = "''1.2.3''" and throws = neverThrows and uac = composer,
      OF two]
  note bearer = C1_credential_scheme [where tok = countingToken and s = exampleState
      and a = exampleArgv and version = "''1.2.3''" and throws = neverThrows and uac = composer,
      OF one]
  note thrown = C1_credential_scheme [where tok = countingToken and s = exampleState
      and a = arrayArgv and version = "''1.2.3''" and throws = throwsOnArray and uac = composer,
      OF one]
  from first_pat obtain first where
    first: "getAzureDevOpsClient patArgv ''1.2.3'' neverThrows countingToken composer exampleState =
      (Inr first, after1)"
    unfolding accepted by blast
  with first_pat pat
  have first_handler: "authHandler first = PersonalAccessTokenCredentialHandler ''token-''"
    by blast
  from second_pat obtain second where
    second: "getAzureDevOpsClient patArgv ''1.2.3'' neverThrows countingToken composer after1 =
      (Inr second, after2)"
    unfolding accepted by blast
  with second_pat pat
  have second_handler: "authHandler second = PersonalAccessTokenCredentialHandler ''token-I''"
    by blast
  from bearer obtain client where
    client: "getAzureDevOpsClient exampleArgv ''1.2.3'' neverThrows countingToken composer
      exampleState = (Inr client, after1)"
    unfolding accepted by blast
  with bearer other have client_handler: "authHandler client = BearerCredentialHandler ''token-''"
    by blast
  from thrown
  have rejected: "getAzureDevOpsClient arrayArgv ''1.2.3'' throwsOnArray countingToken composer
      exampleState = (Inl (OtherError ''Invalid URL''), after1)"
    unfolding refused by blast
  from one two first first_handler second second_handler client client_handler rejected
  show ?thesis
    unfolding patArgv_def arrayArgv_def after1_def after2_def by blast
qed

text \<open>
  C2. When the token provider rejects, the client factory rejects with the same error,
  in the state the single token request left, and returns no client.
\<close>

theorem C2_token_failure_propagates:
  assumes "tok s = (Inl err, s')"
  shows "getAzureDevOpsClient a version throws tok uac s = (Inl err, s') \<and>
         (\<forall>client s''. getAzureDevOpsClient a version throws tok uac s \<noteq> (Inr client, s''))"
  using assms by (simp add: getAzureDevOpsClient_def)

theorem C2_token_failure_propagates_witness:
  "failingToken exampleState = (Inl AuthFailed, exampleState\<lparr>world := Suc 0\<rparr>) \<and>
   getAzureDevOpsClient exampleArgv ''1.2.3'' neverThrows failingToken composer exampleState =
     (Inl AuthFailed, exampleState\<lparr>world := Suc 0\<rparr>)"
proof -
  have rejects: "failingToken exampleState = (Inl AuthFailed, exampleState\<lparr>world := Suc 0\<rparr>)"
    by (simp add: failingToken_def exampleState_def)
  from C2_token_failure_propagates [where tok = failingToken and s = exampleState
      and a = exampleArgv and version = "''1.2.3''" and throws = neverThrows and uac = composer,
      OF rejects] rejects
  show ?thesis by simp
qed

text \<open>
  C3. Every call of the client factory makes one token request: the state it leaves is
  the state that request leaves. For two calls, with any change of the state between
  them, whose token requests succeed and whose constructor calls are accepted: each call
  returns a client of its own, which holds the token of that call's request, the
  organization URL, and the user agent the composer yields when that call reads it; so
  when the composer yields different strings at the two reads, the clients carry
  different user agents.
\<close>

theorem C3_fresh_client_each_call:
  assumes first: "tok s0 = (Inr t1, s1)"
      and second: "tok (between s1) = (Inr t2, s2)"
      and accepted1:
        "throws (orgUrl a)
           (if authentication a = Str ''pat'' then PersonalAccessTokenCredentialHandler t1
            else BearerCredentialHandler t1)
           None
           \<lparr> productName = ''AzureDevOps.MCP'', productVersion = version,
             userAgent = composedUserAgent (uac s1) \<rparr> = None"
      and accepted2:
        "throws (orgUrl a)
           (if authentication a = Str ''pat'' then PersonalAccessTokenCredentialHandler t2
            else BearerCredentialHandler t2)
           None
           \<lparr> productName = ''AzureDevOps.MCP'', productVersion = version,
             userAgent = composedUserAgent (uac s2) \<rparr> = None"
  shows "snd (getAzureDevOpsClient a version throws tok uac s) = snd (tok s) \<and>
         (\<exists>c1 c2.
            getAzureDevOpsClient a version throws tok uac s0 = (Inr c1, s1) \<and>
            getAzureDevOpsClient a version throws tok uac (between s1) = (Inr c2, s2) \<and>
            handlerToken (authHandler c1) = t1 \<and>
            handlerToken (authHandler c2) = t2 \<and>
            defaultUrl c1 = orgUrl a \<and> defaultUrl c2 = orgUrl a \<and>
            userAgent (requestSettings c1) = composedUserAgent (uac s1) \<and>
            userAgent (requestSettings c2) = composedUserAgent (uac s2) \<and>
            (composedUserAgent (uac s1) \<noteq> composedUserAgent (uac s2) \<longrightarrow>
               userAgent (requestSettings c1) \<noteq> userAgent (requestSettings c2)))"
proof -
  have request: "snd (getAzureDevOpsClient a version throws tok uac s) = snd (tok s)"
  proof (cases "tok s")
    case (Pair outcome s')
    then show ?thesis
      by (cases outcome)
        (simp_all add: getAzureDevOpsClient_def Let_def split: sum.splits)
  qed
  have call: "\<exists>c. getAzureDevOpsClient a version throws tok uac s = (Inr c, s') \<and>
      handlerToken (authHandler c) = t \<and> defaultUrl c = orgUrl a \<and>
      userAgent (requestSettings c) = composedUserAgent (uac s')"
    if "tok s = (Inr t, s')"
      and "throws (orgUrl a)
           (if authentication a = Str ''pat'' then PersonalAccessTokenCredentialHandler t
            else BearerCredentialHandler t)
           None
           \<lparr> productName = ''AzureDevOps.MCP'', productVersion = version,
             userAgent = composedUserAgent (uac s') \<rparr> = None"
    for s t s'
    using that
    by (cases "authentication a = Str ''pat''")
      (simp_all add: getAzureDevOpsClient_def newWebApi_def Let_def
        getPersonalAccessTokenHandler_def getBearerHandler_def)
  from call [OF first accepted1] obtain c1 where
    c1: "getAzureDevOpsClient a version throws tok uac s0 = (Inr c1, s1)"
      "handlerToken (authHandler c1) = t1" "defaultUrl c1 = orgUrl a"
      "userAgent (requestSettings c1) = composedUserAgent (uac s1)"
    by blast
  from call [OF second accepted2] obtain c2 where
    c2: "getAzureDevOpsClient a version throws tok uac (between s1) = (Inr c2, s2)"
      "handlerToken (authHandler c2) = t2" "defaultUrl c2 = orgUrl a"
      "userAgent (requestSettings c2) = composedUserAgent (uac s2)"
    by blast
  from c1 c2 have "getAzureDevOpsClient a version throws tok uac s0 = (Inr c1, s1) \<and>
      getAzureDevOpsClient a version throws tok uac (between s1) = (Inr c2, s2) \<and>
      handlerToken (authHandler c1) = t1 \<and>
      handlerToken (authHandler c2) = t2 \<and>
      defaultUrl c1 = orgUrl a \<and> defaultUrl c2 = orgUrl a \<and>
      userAgent (requestSettings c1) = composedUserAgent (uac s1) \<and>
      userAgent (requestSettings c2) = composedUserAgent (uac s2) \<and>
      (composedUserAgent (uac s1) \<noteq> composedUserAgent (uac s2) \<longrightarrow>
         userAgent (requestSettings c1) \<noteq> userAgent (requestSettings c2))"
    by simp
  then have "\<exists>c1 c2.
      getAzureDevOpsClient a version throws tok uac s0 = (Inr c1, s1) \<and>
      getAzureDevOpsClient a version throws tok uac (between s1) = (Inr c2, s2) \<and>
      handlerToken (authHandler c1) = t1 \<and>
      handlerToken (authHandler c2) = t2 \<and>
      defaultUrl c1 = orgUrl a \<and> defaultUrl c2 = orgUrl a \<and>
      userAgent (requestSettings c1) = composedUserAgent (uac s1) \<and>
      userAgent (requestSettings c2) = composedUserAgent (uac s2) \<and>
      (composedUserAgent (uac s1) \<noteq> composedUserAgent (uac s2) \<longrightarrow>
         userAgent (requestSettings c1) \<noteq> userAgent (requestSettings c2))"
    by (intro exI)
  with request show ?thesis ..
qed

theorem C3_fresh_client_each_call_witness:
  "snd (getAzureDevOpsClient exampleArgv ''1.2.3'' neverThrows countingToken composer
          (exampleState\<lparr>world := Suc (Suc 0)\<rparr>)) =
     exampleState\<lparr>world := Suc (Suc (Suc 0))\<rparr> \<and>
   (\<exists>c1 c2.
      getAzureDevOpsClient exampleArgv ''1.2.3'' neverThrows countingToken composer exampleState =
        (Inr c1, exampleState\<lparr>world := Suc 0\<rparr>) \<and>
      getAzureDevOpsClient exampleArgv ''1.2.3'' neverThrows countingToken composer
        (handshake (exampleState\<lparr>world := Suc 0\<rparr>)) =
        (Inr c2, handshake (exampleState\<lparr>world := Suc (Suc 0)\<rparr>)) \<and>
      handlerToken (authHandler c1) = ''token-'' \<and>
      handlerToken (authHandler c2) = ''token-I'' \<and>
      defaultUrl c1 = Str ''https://dev.azure.com/contoso'' \<and>
      defaultUrl c2 = Str ''https://dev.azure.com/contoso'' \<and>
      userAgent (requestSettings c1) = ''AzureDevOps.MCP/1.2.3'' \<and>
      userAgent (requestSettings c2) = ''AzureDevOps.MCP/1.2.3 agent-x/0.1'' \<and>
      userAgent (requestSettings c1) \<noteq> userAgent (requestSettings c2))"
proof -
  define after1 where "after1 = exampleState\<lparr>world := Suc 0\<rparr>"
  define after2 where "after2 = handshake (exampleState\<lparr>world := Suc (Suc 0)\<rparr>)"
  have first: "countingToken exampleState = (Inr ''token-'', after1)"
    by (simp add: countingToken_def exampleState_def after1_def)
  have second: "countingToken (handshake after1) = (Inr ''token-I'', after2)"
    by (simp add: countingToken_def exampleState_def handshake_def after1_def after2_def)
  have accepted: "neverThrows url handler opts settings = None" for url handler opts settings
    by (simp add: neverThrows_def)
  have url: "orgUrl exampleArgv = Str ''https://dev.azure.com/contoso''"
    by (simp add: orgUrl_def orgName_def exampleArgv_def)
  have agent1: "composedUserAgent (composer after1) = ''AzureDevOps.MCP/1.2.3''"
    by (simp add: after1_def exampleState_def)
  have agent2: "composedUserAgent (composer after2) = ''AzureDevOps.MCP/1.2.3 agent-x/0.1''"
    by (simp add: after2_def exampleState_def handshake_def)
  have third: "snd (countingToken (exampleState\<lparr>world := Suc (Suc 0)\<rparr>)) =
      exampleState\<lparr>world := Suc (Suc (Suc 0))\<rparr>"
    by (simp add: countingToken_def exampleState_def)
  note calls = C3_fresh_client_each_call [where tok = countingToken and ?s0.0 = exampleState
      and ?t1.0 = "''token-''" and ?s1.0 = after1 and between = handshake
      and ?t2.0 = "''token-I''" and ?s2.0 = after2 and throws = neverThrows
      and a = exampleArgv and version = "''1.2.3''" and uac = composer
      and s = "exampleState\<lparr>world := Suc (Suc 0)\<rparr>",
      OF first second accepted accepted]
  from calls show ?thesis
    unfolding url agent1 agent2 third unfolding after1_def after2_def by simp
qed

text \<open>
  C4. With the domain filter of the specification in place: a request that holds a name
  that is neither in the registry nor the wildcard fails with \<open>UnknownDomain\<close>, naming
  a requested name that is not in the registry, so no enabled set is returned; and
  startup on such a command line ends with that error before \<open>main\<close> is entered, with
  no call made, hence without registering any tool.
\<close>

theorem C4_unknown_domain_is_fatal:
  assumes "d \<in> set requested" and "d \<notin> set registry" and "d \<noteq> ''all''"
  shows "\<exists>bad. bad \<in> set requested \<and> bad \<notin> set registry \<and>
           resolve registry requested = Inl (UnknownDomain bad registry) \<and>
           (parseSync env c = Inr a \<and> domains a = requested \<and> getEnabledDomains cs = resolve registry \<longrightarrow>
              startup cs env c w = (Inl (UnknownDomain bad registry), []))"
proof -
  from resolve_unknown [OF assms] obtain bad where
    bad: "bad \<in> set requested" "bad \<notin> set registry"
      "resolve registry requested = Inl (UnknownDomain bad registry)"
    by blast
  have "startup cs env c w = (Inl (UnknownDomain bad registry), [])"
    if "parseSync env c = Inr a" "domains a = requested" "getEnabledDomains cs = resolve registry"
    using that bad(3) by (simp add: startup_def)
  with bad show ?thesis by blast
qed

theorem C4_unknown_domain_is_fatal_witness:
  "parseSync exampleEnv (exampleCli\<lparr>opt_domains := Some [''builds'', ''Work'', ''wiki'']\<rparr>) =
     Inr (exampleArgv\<lparr>domains := [''builds'', ''Work'', ''wiki'']\<rparr>) \<and>
   resolve [''repositories'', ''builds'', ''work''] [''builds'', ''Work'', ''wiki''] =
     Inl (UnknownDomain ''Work'' [''repositories'', ''builds'', ''work'']) \<and>
   startup exampleCollaborators exampleEnv
     (exampleCli\<lparr>opt_domains := Some [''builds'', ''Work'', ''wiki'']\<rparr>) 0 =
     (Inl (UnknownDomain ''Work'' [''repositories'', ''builds'', ''work'']), [])"
proof -
  define requested where "requested = [''builds'', ''Work'', ''wiki'']"
  define registry where "registry = [''repositories'', ''builds'', ''work'']"
  define line where "line = exampleCli\<lparr>opt_domains := Some requested\<rparr>"
  define parsed where "parsed = exampleArgv\<lparr>domains := requested\<rparr>"
  have parses: "parseSync exampleEnv line = Inr parsed"
    by (simp add: parseSync_def exampleCli_def exampleArgv_def authenticationChoices_def
        line_def parsed_def requested_def)
  have known: "getEnabledDomains exampleCollaborators = resolve registry"
    by (simp add: exampleCollaborators_def exampleRegistry_def registry_def)
  have asked: "domains parsed = requested"
    by (simp add: parsed_def)
  have wiki: "''wiki'' \<in> set requested" "''wiki'' \<notin> set registry" "''wiki'' \<noteq> ''all''"
    by (simp_all add: requested_def registry_def)
  from C4_unknown_domain_is_fatal [OF wiki, of exampleEnv line parsed exampleCollaborators 0]
  obtain bad where
    resolved: "resolve registry requested = Inl (UnknownDomain bad registry)"
    and fatal: "parseSync exampleEnv line = Inr parsed \<and> domains parsed = requested \<and>
        getEnabledDomains exampleCollaborators = resolve registry \<longrightarrow>
      startup exampleCollaborators exampleEnv line 0 = (Inl (UnknownDomain bad registry), [])"
    by (elim exE conjE)
  have "resolve registry requested = Inl (UnknownDomain ''Work'' registry)"
    by (simp add: resolve_def requested_def registry_def)
  with resolved have bad: "bad = ''Work''"
    by simp
  from fatal parses asked known
  have "startup exampleCollaborators exampleEnv line 0 = (Inl (UnknownDomain bad registry), [])"
    by (elim impE) (intro conjI)
  with resolved parses show ?thesis
    unfolding bad unfolding line_def parsed_def requested_def registry_def
    by (intro conjI)
qed

text \<open>
  C5. With the domain filter of the specification: a request that holds only the token
  \<open>all\<close> resolves to the whole registry; a single name that differs from \<open>all\<close>, as any
  other casing of it does, and is not in the registry is rejected; and when the operator
  gives no \<open>domains\<close> option, \<open>argv.domains\<close> is the one-element list \<open>all\<close>, which
  resolves to the whole registry.
\<close>

theorem C5_wildcard_enables_all:
  "(set requested = {''all''} \<longrightarrow> resolve registry requested = Inr (set registry)) \<and>
   (d \<noteq> ''all'' \<and> d \<notin> set registry \<longrightarrow>
      resolve registry [d] = Inl (UnknownDomain d registry)) \<and>
   (parseSync env c = Inr a \<and> opt_domains c = None \<longrightarrow>
      domains a = [''all''] \<and> resolve registry (domains a) = Inr (set registry))"
proof (intro conjI impI)
  assume only: "set requested = {''all''}"
  then have "requested \<noteq> []"
    by (cases requested) simp_all
  moreover from only have "list_all (\<lambda>d. d = ''all'') requested"
    unfolding list_all_iff by simp
  ultimately show "resolve registry requested = Inr (set registry)"
    by (simp add: resolve_def)
next
  assume "d \<noteq> ''all'' \<and> d \<notin> set registry"
  then show "resolve registry [d] = Inl (UnknownDomain d registry)"
    by (simp add: resolve_def)
next
  assume parsed: "parseSync env c = Inr a \<and> opt_domains c = None"
  then show default: "domains a = [''all'']"
    by (auto simp: parseSync_def split: option.splits list.splits)
  then show "resolve registry (domains a) = Inr (set registry)"
    by (simp add: resolve_def)
qed

theorem C5_wildcard_enables_all_witness:
  "set [''all'', ''all''] = {''all''} \<and>
   resolve [''repositories'', ''builds'', ''work''] [''all'', ''all''] =
     Inr {''repositories'', ''builds'', ''work''} \<and>
   resolve [''repositories'', ''builds'', ''work''] [''All''] =
     Inl (UnknownDomain ''All'' [''repositories'', ''builds'', ''work'']) \<and>
   parseSync exampleEnv exampleCli = Inr exampleArgv \<and> opt_domains exampleCli = None \<and>
   domains exampleArgv = [''all''] \<and>
   resolve [''repositories'', ''builds'', ''work''] (domains exampleArgv) =
     Inr {''repositories'', ''builds'', ''work''}"
proof -
  define registry where "registry = [''repositories'', ''builds'', ''work'']"
  have only: "set [''all'', ''all''] = {''all''}"
    by simp
  have variant: "''All'' \<noteq> ''all'' \<and> ''All'' \<notin> set registry"
    by (simp add: registry_def)
  have parsed: "parseSync exampleEnv exampleCli = Inr exampleArgv \<and> opt_domains exampleCli = None"
    by (simp add: parseSync_def exampleCli_def exampleArgv_def authenticationChoices_def)
  note wildcard = C5_wildcard_enables_all [of "[''all'', ''all'']" registry "''All''"
      exampleEnv exampleCli exampleArgv]
  from wildcard have twice: "set [''all'', ''all''] = {''all''} \<longrightarrow>
      resolve registry [''all'', ''all''] = Inr (set registry)"
    and cased: "''All'' \<noteq> ''all'' \<and> ''All'' \<notin> set registry \<longrightarrow>
      resolve registry [''All''] = Inl (UnknownDomain ''All'' registry)"
    and unset: "parseSync exampleEnv exampleCli = Inr exampleArgv \<and> opt_domains exampleCli = None \<longrightarrow>
      domains exampleArgv = [''all''] \<and>
      resolve registry (domains exampleArgv) = Inr (set registry)"
    by (rule conjunct1, rule conjunct2 [THEN conjunct1], rule conjunct2 [THEN conjunct2])
  from unset [rule_format, OF parsed]
  have default: "domains exampleArgv = [''all'']"
    and resolved: "resolve registry (domains exampleArgv) = Inr (set registry)"
    by (rule conjunct1, rule conjunct2)
  from twice [rule_format, OF only] cased [rule_format, OF variant] default resolved only parsed
  show ?thesis
    unfolding registry_def by simp
qed

text \<open>
  C6. With the authenticator factory of the specification in place: under strategy
  \<open>pat\<close> with no or an empty token, the factory fails with \<open>MissingCredential\<close> and
  returns no token provider; \<open>main\<close> then ends in an error without registering the
  tools or connecting the server, and that error is \<open>MissingCredential\<close>, raised by the
  call of the factory, whenever the tenant lookup before it succeeded.
\<close>

theorem C6_pat_requires_credential:
  assumes "authentication a = Str ''pat''"
    and "patToken a = None \<or> patToken a = Some (Str [])"
    and "createAuthenticator cs = create others"
  shows "create others (authentication a) tenantId (patToken a) = Inl MissingCredential \<and>
         (\<exists>err calls. main cs a enabledDomains w = (Inl err, calls) \<and>
            \<not> list_ex isConfigureAllTools calls \<and> Connect \<notin> set calls \<and>
            (\<forall>found s1.
               getOrgTenant cs (orgName a)
                 \<lparr> composer = newUserAgentComposer cs (packageVersion cs), world = w \<rparr> =
                 (Inr found, s1) \<longrightarrow>
               err = MissingCredential \<and> list_ex isCreateAuthenticator calls))"
proof -
  have construction: "create others (authentication a) t (patToken a) = Inl MissingCredential"
    for t
    using assms(1,2) by (auto simp: create_def)
  show ?thesis
  proof (cases "getOrgTenant cs (orgName a)
      \<lparr> composer = newUserAgentComposer cs (packageVersion cs), world = w \<rparr>")
    case (Pair looked s1)
    then show ?thesis
      by (cases looked) (simp_all add: main_def Let_def assms(3) construction)
  qed
qed

theorem C6_pat_requires_credential_witness:
  "authentication (exampleArgv\<lparr>authentication := Str ''pat''\<rparr>) = Str ''pat'' \<and>
   patToken (exampleArgv\<lparr>authentication := Str ''pat''\<rparr>) = None \<and>
   create exampleProviders (Str ''pat'') (Some (Str ''lookup-tenant'')) None =
     Inl MissingCredential \<and>
   main exampleCollaborators (exampleArgv\<lparr>authentication := Str ''pat''\<rparr>) {} 0 =
     (Inl MissingCredential,
      [LoggerInfo, NewMcpServer, NewUserAgentComposer ''1.2.3'', GetOrgTenant ''contoso'',
       CreateAuthenticator (Str ''pat'') (Some (Str ''lookup-tenant'')) None])"
proof -
  define a where "a = exampleArgv\<lparr>authentication := Str ''pat''\<rparr>"
  have pat: "authentication a = Str ''pat''" and none: "patToken a = None"
    by (simp_all add: a_def exampleArgv_def)
  from none have missing: "patToken a = None \<or> patToken a = Some (Str [])" ..
  have factory: "createAuthenticator exampleCollaborators = create exampleProviders"
    by (simp add: exampleCollaborators_def)
  have lookup: "getOrgTenant exampleCollaborators (orgName a)
      \<lparr> composer = newUserAgentComposer exampleCollaborators (packageVersion exampleCollaborators),
        world = 0 \<rparr> =
      (Inr (Some ''lookup-tenant''),
       \<lparr> composer = \<lparr> composedUserAgent = ''AzureDevOps.MCP/1.2.3'' \<rparr>, world = Suc 0 \<rparr>)"
    by (simp add: exampleCollaborators_def exampleArgv_def orgName_def a_def)
  from C6_pat_requires_credential [OF pat missing factory,
      of "Some (Str ''lookup-tenant'')" "{}" 0]
  obtain err calls where construction:
      "create exampleProviders (authentication a) (Some (Str ''lookup-tenant'')) (patToken a) =
         Inl MissingCredential"
    and fails: "main exampleCollaborators a {} 0 = (Inl err, calls)"
    and cause: "\<forall>found s1.
        getOrgTenant exampleCollaborators (orgName a)
          \<lparr> composer = newUserAgentComposer exampleCollaborators
              (packageVersion exampleCollaborators), world = 0 \<rparr> = (Inr found, s1) \<longrightarrow>
        err = MissingCredential \<and> list_ex isCreateAuthenticator calls"
    by (elim exE conjE)
  from cause lookup have err: "err = MissingCredential"
    by (elim allE impE conjE)
  have "snd (main exampleCollaborators a {} 0) =
      [LoggerInfo, NewMcpServer, NewUserAgentComposer ''1.2.3'', GetOrgTenant ''contoso'',
       CreateAuthenticator (Str ''pat'') (Some (Str ''lookup-tenant'')) None]"
    by (simp add: main_def Let_def exampleCollaborators_def exampleArgv_def orgName_def
        create_def a_def)
  with fails err have "main exampleCollaborators a {} 0 =
     (Inl MissingCredential,
      [LoggerInfo, NewMcpServer, NewUserAgentComposer ''1.2.3'', GetOrgTenant ''contoso'',
       CreateAuthenticator (Str ''pat'') (Some (Str ''lookup-tenant'')) None])"
    by simp
  with construction pat none show ?thesis
    unfolding a_def by simp
qed

text \<open>
  C7 as stated does not hold. The operator names a tenant and the lookup finds another
  one for the organization: the authenticator is created for the one the lookup found.
  The operator names a tenant and the lookup rejects: \<open>main\<close> ends with that error and
  no authenticator is created.
\<close>

theorem C7_explicit_tenant_counterexample:
  "tenant exampleArgv = Some (Str ''operator-tenant'') \<and>
   snd (main exampleCollaborators exampleArgv {} 0) =
     [LoggerInfo, NewMcpServer, NewUserAgentComposer ''1.2.3'', GetOrgTenant ''contoso'',
      CreateAuthenticator (Str ''interactive'') (Some (Str ''lookup-tenant'')) None,
      ConfigureAllTools {}, NewStdioServerTransport, Connect] \<and>
   map_sum id (\<lambda>sv. fst (authenticator sv (state sv)))
     (fst (main exampleCollaborators exampleArgv {} 0)) =
     Inr (Inr ''interactive token for lookup-tenant'') \<and>
   main offlineCollaborators exampleArgv {} 0 =
     (Inl (OtherError ''offline''),
      [LoggerInfo, NewMcpServer, NewUserAgentComposer ''1.2.3'', GetOrgTenant ''contoso''])"
  by (simp add: main_def Let_def offlineCollaborators_def exampleCollaborators_def
      exampleArgv_def orgName_def create_def exampleProviders_def)

text \<open>
  C7, amended. \<open>main\<close> calls the tenant lookup exactly once, for the organization name.
  When the lookup rejects, \<open>main\<close> ends with that error and never calls
  \<open>createAuthenticator\<close>. When it resolves, \<open>main\<close> calls \<open>createAuthenticator\<close> exactly
  once, with the tenant the lookup found or, when it found none, with the operator's
  \<open>tenant\<close> option; the provider that call returned is the one the server runs with, in
  the state the single lookup left.
\<close>

theorem C7_tenant_resolution:
  "filter isGetOrgTenant (snd (main cs a enabledDomains w)) = [GetOrgTenant (orgName a)] \<and>
   (\<forall>err s1.
      getOrgTenant cs (orgName a)
        \<lparr> composer = newUserAgentComposer cs (packageVersion cs), world = w \<rparr> = (Inl err, s1) \<longrightarrow>
      fst (main cs a enabledDomains w) = Inl err \<and>
      filter isCreateAuthenticator (snd (main cs a enabledDomains w)) = []) \<and>
   (\<forall>found s1.
      getOrgTenant cs (orgName a)
        \<lparr> composer = newUserAgentComposer cs (packageVersion cs), world = w \<rparr> = (Inr found, s1) \<longrightarrow>
      filter isCreateAuthenticator (snd (main cs a enabledDomains w)) =
        [CreateAuthenticator (authentication a)
           (case found of Some t \<Rightarrow> Some (Str t) | None \<Rightarrow> tenant a) (patToken a)] \<and>
      (\<forall>sv calls. main cs a enabledDomains w = (Inr sv, calls) \<longrightarrow>
         state sv = s1 \<and>
         createAuthenticator cs (authentication a)
           (case found of Some t \<Rightarrow> Some (Str t) | None \<Rightarrow> tenant a) (patToken a) =
           Inr (authenticator sv)))"
proof (cases "getOrgTenant cs (orgName a)
    \<lparr> composer = newUserAgentComposer cs (packageVersion cs), world = w \<rparr>")
  case (Pair looked s1)
  show ?thesis
  proof (cases looked)
    case (Inl err)
    with Pair show ?thesis
      by (simp add: main_def Let_def)
  next
    case (Inr found)
    with Pair show ?thesis
      by (cases "createAuthenticator cs (authentication a)
            (case found of Some t \<Rightarrow> Some (Str t) | None \<Rightarrow> tenant a) (patToken a)")
        (auto simp: main_def Let_def)
  qed
qed

theorem C7_tenant_resolution_witness:
  "filter isGetOrgTenant (snd (main exampleCollaborators exampleArgv {} 0)) =
     [GetOrgTenant ''contoso''] \<and>
   filter isCreateAuthenticator (snd (main exampleCollaborators exampleArgv {} 0)) =
     [CreateAuthenticator (Str ''interactive'') (Some (Str ''lookup-tenant'')) None] \<and>
   filter isCreateAuthenticator
     (snd (main exampleCollaborators (exampleArgv\<lparr>organization := ''fabrikam''\<rparr>) {} 0)) =
     [CreateAuthenticator (Str ''interactive'') (Some (Str ''operator-tenant'')) None] \<and>
   fst (main offlineCollaborators exampleArgv {} 0) = Inl (OtherError ''offline'') \<and>
   filter isGetOrgTenant (snd (main offlineCollaborators exampleArgv {} 0)) =
     [GetOrgTenant ''contoso''] \<and>
   filter isCreateAuthenticator (snd (main offlineCollaborators exampleArgv {} 0)) = []"
proof -
  define s0 where "s0 = \<lparr> composer = \<lparr> composedUserAgent = ''AzureDevOps.MCP/1.2.3'' \<rparr>,
      world = (0::nat) \<rparr>"
  define s1 where "s1 = \<lparr> composer = \<lparr> composedUserAgent = ''AzureDevOps.MCP/1.2.3'' \<rparr>,
      world = Suc 0 \<rparr>"
  have start: "\<lparr> composer = newUserAgentComposer exampleCollaborators
      (packageVersion exampleCollaborators), world = 0 \<rparr> = s0"
    "\<lparr> composer = newUserAgentComposer offlineCollaborators
      (packageVersion offlineCollaborators), world = 0 \<rparr> = s0"
    by (simp_all add: exampleCollaborators_def offlineCollaborators_def s0_def)
  have known: "getOrgTenant exampleCollaborators (orgName exampleArgv) s0 =
      (Inr (Some ''lookup-tenant''), s1)"
    by (simp add: exampleCollaborators_def exampleArgv_def orgName_def s0_def s1_def)
  have unknown: "getOrgTenant exampleCollaborators
      (orgName (exampleArgv\<lparr>organization := ''fabrikam''\<rparr>)) s0 = (Inr None, s1)"
    by (simp add: exampleCollaborators_def exampleArgv_def orgName_def s0_def s1_def)
  have offline: "getOrgTenant offlineCollaborators (orgName exampleArgv) s0 =
      (Inl (OtherError ''offline''), s1)"
    by (simp add: offlineCollaborators_def exampleCollaborators_def s0_def s1_def)
  note resolved = C7_tenant_resolution [of exampleCollaborators exampleArgv "{}" 0,
      unfolded start]
  note fallback = C7_tenant_resolution [of exampleCollaborators
      "exampleArgv\<lparr>organization := ''fabrikam''\<rparr>" "{}" 0, unfolded start]
  note rejected = C7_tenant_resolution [of offlineCollaborators exampleArgv "{}" 0,
      unfolded start]
  from resolved known
  have "filter isGetOrgTenant (snd (main exampleCollaborators exampleArgv {} 0)) =
      [GetOrgTenant (orgName exampleArgv)]"
    and "filter isCreateAuthenticator (snd (main exampleCollaborators exampleArgv {} 0)) =
      [CreateAuthenticator (authentication exampleArgv) (Some (Str ''lookup-tenant''))
         (patToken exampleArgv)]"
    by simp_all
  moreover from fallback unknown
  have "filter isCreateAuthenticator
      (snd (main exampleCollaborators (exampleArgv\<lparr>organization := ''fabrikam''\<rparr>) {} 0)) =
      [CreateAuthenticator (authentication (exampleArgv\<lparr>organization := ''fabrikam''\<rparr>))
         (tenant (exampleArgv\<lparr>organization := ''fabrikam''\<rparr>))
         (patToken (exampleArgv\<lparr>organization := ''fabrikam''\<rparr>))]"
    by simp
  moreover from rejected offline
  have "fst (main offlineCollaborators exampleArgv {} 0) = Inl (OtherError ''offline'')"
    and "filter isGetOrgTenant (snd (main offlineCollaborators exampleArgv {} 0)) =
      [GetOrgTenant (orgName exampleArgv)]"
    and "filter isCreateAuthenticator (snd (main offlineCollaborators exampleArgv {} 0)) = []"
    by simp_all
  ultimately show ?thesis
    by (simp add: exampleArgv_def orgName_def)
qed

text \<open>
  C8. With no server URL on the command line, every client the factory builds is bound
  to \<open>https://dev.azure.com/\<close> followed by the organization name; with a server URL,
  to that URL as given, and to the array of the URLs given when the option is repeated.
\<close>

theorem C8_org_url:
  assumes "parseSync env c = Inr a"
  shows "arg_organization c = Some (orgName a) \<and>
         (opt_server_url c = [] \<longrightarrow> orgUrl a = Str (''https://dev.azure.com/'' @ orgName a)) \<and>
         (\<forall>url. opt_server_url c = [url] \<longrightarrow> orgUrl a = Str url) \<and>
         (\<forall>url second rest. opt_server_url c = url # second # rest \<longrightarrow>
            orgUrl a = Arr (url # second # rest)) \<and>
         (\<forall>(tok :: ('s, 'e, string) async) throws uac s client s'.
            getAzureDevOpsClient a version throws tok uac s = (Inr client, s') \<longrightarrow>
            defaultUrl client = orgUrl a)"
proof -
  from assms have parsed: "arg_organization c = Some (organization a)"
    "serverUrl a = yargsString (opt_server_url c)"
    by (auto simp: parseSync_def split: option.splits list.splits)
  have "defaultUrl client = orgUrl a"
    if "getAzureDevOpsClient a version throws tok uac s = (Inr client, s')"
    for tok :: "('s, 'e, string) async" and throws uac s client s'
    using that
    by (auto simp: getAzureDevOpsClient_def newWebApi_def Let_def
        split: prod.splits sum.splits option.splits)
  with parsed show ?thesis
    by (auto simp: orgUrl_def orgName_def)
qed

theorem C8_org_url_witness:
  "parseSync exampleEnv exampleCli = Inr exampleArgv \<and>
   orgUrl exampleArgv = Str ''https://dev.azure.com/contoso'' \<and>
   parseSync exampleEnv (exampleCli\<lparr>opt_server_url := [''https://tfs.contoso.com/tfs'']\<rparr>) =
     Inr (exampleArgv\<lparr>serverUrl := Some (Str ''https://tfs.contoso.com/tfs'')\<rparr>) \<and>
   orgUrl (exampleArgv\<lparr>serverUrl := Some (Str ''https://tfs.contoso.com/tfs'')\<rparr>) =
     Str ''https://tfs.contoso.com/tfs'' \<and>
   (\<exists>client.
      getAzureDevOpsClient exampleArgv ''1.2.3'' neverThrows countingToken composer exampleState =
        (Inr client, exampleState\<lparr>world := Suc 0\<rparr>) \<and>
      defaultUrl client = Str ''https://dev.azure.com/contoso'')"
proof -
  define client where "client =
     \<lparr> defaultUrl = Str ''https://dev.azure.com/contoso'',
       authHandler = BearerCredentialHandler ''token-'', options = None,
       requestSettings = \<lparr> productName = ''AzureDevOps.MCP'', productVersion = ''1.2.3'',
         userAgent = ''AzureDevOps.MCP/1.2.3'' \<rparr> \<rparr>"
  define given where "given = exampleCli\<lparr>opt_server_url := [''https://tfs.contoso.com/tfs'']\<rparr>"
  define onPremises where
    "onPremises = exampleArgv\<lparr>serverUrl := Some (Str ''https://tfs.contoso.com/tfs'')\<rparr>"
  have parsed: "parseSync exampleEnv exampleCli = Inr exampleArgv"
    by (simp add: parseSync_def exampleCli_def exampleArgv_def authenticationChoices_def)
  have parsed_url: "parseSync exampleEnv given = Inr onPremises"
    by (simp add: parseSync_def exampleCli_def exampleArgv_def authenticationChoices_def
        given_def onPremises_def)
  have absent: "opt_server_url exampleCli = []"
    and once: "opt_server_url given = [''https://tfs.contoso.com/tfs'']"
    and org: "orgName exampleArgv = ''contoso''"
    by (simp_all add: exampleCli_def given_def orgName_def exampleArgv_def)
  have built: "getAzureDevOpsClient exampleArgv ''1.2.3'' neverThrows countingToken composer
      exampleState = (Inr client, exampleState\<lparr>world := Suc 0\<rparr>)"
    by (simp add: getAzureDevOpsClient_def newWebApi_def neverThrows_def countingToken_def
        exampleState_def exampleArgv_def getBearerHandler_def orgUrl_def orgName_def client_def)
  note default = C8_org_url [OF parsed, where version = "''1.2.3''" and 's = "nat runtime"
      and 'e = error]
  note verbatim = C8_org_url [OF parsed_url, where version = "''1.2.3''" and 's = "nat runtime"
      and 'e = error]
  from default absent org have url: "orgUrl exampleArgv = Str ''https://dev.azure.com/contoso''"
    by simp
  from default built have "defaultUrl client = orgUrl exampleArgv"
    by blast
  with url have bound: "defaultUrl client = Str ''https://dev.azure.com/contoso''"
    by simp
  from verbatim once have "orgUrl onPremises = Str ''https://tfs.contoso.com/tfs''"
    by blast
  with parsed parsed_url url built bound show ?thesis
    unfolding given_def onPremises_def by blast
qed

text \<open>
  C9. The strategy is not always one of the five names: an operator who repeats the
  option, each time with one of the five names, is accepted, and \<open>argv.authentication\<close>
  is then the array of the names given. For \<open>-a pat -a pat\<close> it is the array of \<open>pat\<close>
  twice, which is none of the five names, and the client factory compares it with
  \<open>"pat"\<close> and attaches the token as a bearer credential.
\<close>

theorem C9_repeated_authentication:
  "parseSync exampleEnv (exampleCli\<lparr>opt_authentication := [''pat'', ''pat'']\<rparr>) =
     Inr (exampleArgv\<lparr>authentication := Arr [''pat'', ''pat'']\<rparr>) \<and>
   Arr [''pat'', ''pat''] \<notin> set (map Str authenticationChoices) \<and>
   getAzureDevOpsClient (exampleArgv\<lparr>authentication := Arr [''pat'', ''pat'']\<rparr>) ''1.2.3''
     neverThrows countingToken composer exampleState =
     (Inr \<lparr> defaultUrl = Str ''https://dev.azure.com/contoso'',
            authHandler = BearerCredentialHandler ''token-'',
            options = None,
            requestSettings =
              \<lparr> productName = ''AzureDevOps.MCP'', productVersion = ''1.2.3'',
                userAgent = ''AzureDevOps.MCP/1.2.3'' \<rparr> \<rparr>,
      exampleState\<lparr>world := Suc 0\<rparr>)"
proof -
  have "parseSync exampleEnv (exampleCli\<lparr>opt_authentication := [''pat'', ''pat'']\<rparr>) =
      Inr (exampleArgv\<lparr>authentication := Arr [''pat'', ''pat'']\<rparr>)"
    by (simp add: parseSync_def exampleCli_def exampleArgv_def authenticationChoices_def)
  moreover have "Arr [''pat'', ''pat''] \<notin> set (map Str authenticationChoices)"
    by (simp add: authenticationChoices_def)
  moreover have
    "getAzureDevOpsClient (exampleArgv\<lparr>authentication := Arr [''pat'', ''pat'']\<rparr>) ''1.2.3''
       neverThrows countingToken composer exampleState =
     (Inr \<lparr> defaultUrl = Str ''https://dev.azure.com/contoso'',
            authHandler = BearerCredentialHandler ''token-'',
            options = None,
            requestSettings =
              \<lparr> productName = ''AzureDevOps.MCP'', productVersion = ''1.2.3'',
                userAgent = ''AzureDevOps.MCP/1.2.3'' \<rparr> \<rparr>,
      exampleState\<lparr>world := Suc 0\<rparr>)"
    by (simp add: getAzureDevOpsClient_def newWebApi_def neverThrows_def countingToken_def
        exampleState_def exampleArgv_def getBearerHandler_def orgUrl_def orgName_def)
  ultimately show ?thesis
    by (intro conjI)
qed

text \<open>
  C10. Every client the factory builds has product name \<open>AzureDevOps.MCP\<close> and the
  package version as product version; the request settings of two clients, whatever the
  strategy, token provider, constructor, composer and state of each call, differ at most
  in the user agent.
\<close>

theorem C10_product_descriptor:
  assumes "getAzureDevOpsClient a version throws tok uac s = (Inr c1, s1)"
      and "getAzureDevOpsClient a' version throws' tok' uac' t = (Inr c2, t1)"
  shows "productName (requestSettings c1) = ''AzureDevOps.MCP'' \<and>
         productVersion (requestSettings c1) = version \<and>
         requestSettings c2 = (requestSettings c1)\<lparr>userAgent := userAgent (requestSettings c2)\<rparr>"
proof -
  have call: "requestSettings c = \<lparr> productName = ''AzureDevOps.MCP'', productVersion = version,
      userAgent = userAgent (requestSettings c) \<rparr>"
    if "getAzureDevOpsClient b version h p u x = (Inr c, y)" for b h p u x c y
    using that
    by (auto simp: getAzureDevOpsClient_def newWebApi_def Let_def
        split: prod.splits sum.splits option.splits)
  from call [OF assms(1)] call [OF assms(2)] show ?thesis
    by (metis IWebApiRequestSettings.select_convs(1,2) IWebApiRequestSettings.update_convs(3))
qed

theorem C10_product_descriptor_witness:
  "(\<exists>c1 c2.
      getAzureDevOpsClient (exampleArgv\<lparr>authentication := Str ''pat''\<rparr>) ''1.2.3'' neverThrows
        countingToken composer exampleState = (Inr c1, exampleState\<lparr>world := Suc 0\<rparr>) \<and>
      getAzureDevOpsClient exampleArgv ''1.2.3'' neverThrows countingToken composer
        (handshake (exampleState\<lparr>world := Suc 0\<rparr>)) =
        (Inr c2, handshake (exampleState\<lparr>world := Suc (Suc 0)\<rparr>)) \<and>
      productName (requestSettings c1) = ''AzureDevOps.MCP'' \<and>
      productVersion (requestSettings c1) = ''1.2.3'' \<and>
      productName (requestSettings c2) = ''AzureDevOps.MCP'' \<and>
      productVersion (requestSettings c2) = ''1.2.3'' \<and>
      userAgent (requestSettings c1) = ''AzureDevOps.MCP/1.2.3'' \<and>
      userAgent (requestSettings c2) = ''AzureDevOps.MCP/1.2.3 agent-x/0.1'')"
proof -
  define c1 where "c1 =
     \<lparr> defaultUrl = Str ''https://dev.azure.com/contoso'',
       authHandler = PersonalAccessTokenCredentialHandler ''token-'', options = None,
       requestSettings = \<lparr> productName = ''AzureDevOps.MCP'', productVersion = ''1.2.3'',
         userAgent = ''AzureDevOps.MCP/1.2.3'' \<rparr> \<rparr>"
  define c2 where "c2 =
     \<lparr> defaultUrl = Str ''https://dev.azure.com/contoso'',
       authHandler = BearerCredentialHandler ''token-I'', options = None,
       requestSettings = \<lparr> productName = ''AzureDevOps.MCP'', productVersion = ''1.2.3'',
         userAgent = ''AzureDevOps.MCP/1.2.3 agent-x/0.1'' \<rparr> \<rparr>"
  have first: "getAzureDevOpsClient (exampleArgv\<lparr>authentication := Str ''pat''\<rparr>) ''1.2.3''
        neverThrows countingToken composer exampleState =
        (Inr c1, exampleState\<lparr>world := Suc 0\<rparr>)"
    by (simp add: getAzureDevOpsClient_def newWebApi_def neverThrows_def countingToken_def
        exampleState_def exampleArgv_def getPersonalAccessTokenHandler_def orgUrl_def
        orgName_def c1_def)
  have second: "getAzureDevOpsClient exampleArgv ''1.2.3'' neverThrows countingToken composer
        (handshake (exampleState\<lparr>world := Suc 0\<rparr>)) =
        (Inr c2, handshake (exampleState\<lparr>world := Suc (Suc 0)\<rparr>))"
    by (simp add: getAzureDevOpsClient_def newWebApi_def neverThrows_def countingToken_def
        exampleState_def exampleArgv_def getBearerHandler_def orgUrl_def orgName_def c2_def
        handshake_def)
  have agents: "userAgent (requestSettings c1) = ''AzureDevOps.MCP/1.2.3''"
    "userAgent (requestSettings c2) = ''AzureDevOps.MCP/1.2.3 agent-x/0.1''"
    by (simp_all add: c1_def c2_def)
  note descriptor = C10_product_descriptor [OF first second]
  from descriptor have "productName (requestSettings c1) = ''AzureDevOps.MCP''"
    and "productVersion (requestSettings c1) = ''1.2.3''"
    by simp_all
  moreover from descriptor have "productName (requestSettings c2) = ''AzureDevOps.MCP''"
    and "productVersion (requestSettings c2) = ''1.2.3''"
    by (metis IWebApiRequestSettings.select_convs(1) IWebApiRequestSettings.surjective
        IWebApiRequestSettings.update_convs(3),
        metis IWebApiRequestSettings.select_convs(2) IWebApiRequestSettings.surjective
        IWebApiRequestSettings.update_convs(3))
  ultimately show ?thesis
    using first second agents by (intro exI [of _ c1] exI [of _ c2]) simp
qed

end
